theory Spec2Isabelle
  imports Main
begin

section \<open>The rate-limited greeting bot of \<^verbatim>\<open>xk_bot.py\<close>\<close>

text \<open>
  The bot keeps one module-level dictionary \<^verbatim>\<open>user_data\<close> (user id to a dictionary with
  the keys \<^verbatim>\<open>requests\<close> and \<^verbatim>\<open>blocked_until\<close>), and the framework keeps one finite-state
  value per user.  Every handler is modelled as a function that takes the state it reads and
  returns the state it leaves together with the replies it sent, in the order it sent them.

  Time: a \<^verbatim>\<open>datetime\<close> is an integer number of microseconds (the resolution of Python's
  \<^verbatim>\<open>datetime\<close>), and a \<^verbatim>\<open>timedelta\<close> is a difference of two of them.  Each call of
  \<^verbatim>\<open>datetime.now()\<close> in the source is a separate argument of the model, so nothing is assumed
  about two readings of the clock during one message being equal.

  Messages are processed one at a time; interleavings of coroutines at an \<^verbatim>\<open>await\<close> of
  network output are outside this model.
\<close>

subsection \<open>Configuration read at import time (lines 18--35)\<close>

type_synonym user_id = int
type_synonym datetime = int

definition timedelta_minutes :: "int \<Rightarrow> int" where
  "timedelta_minutes m = m * 60000000"

definition timedelta_seconds :: "int \<Rightarrow> int" where
  "timedelta_seconds s = s * 1000000"

definition MAX_REQUESTS_PER_MINUTE :: nat where
  "MAX_REQUESTS_PER_MINUTE = 5"

definition WARNING_THRESHOLD :: nat where
  "WARNING_THRESHOLD = 4"

definition BLOCK_DURATION_MINUTES :: int where
  "BLOCK_DURATION_MINUTES = 3"

text \<open>
  \<^verbatim>\<open>os.getenv\<close> returns \<^verbatim>\<open>None\<close> or a string, so the four settings are optional strings.
\<close>

record config =
  BOT_TOKEN :: "string option"
  CHANNEL_LINK :: "string option"
  PHOTO_URL :: "string option"
  CLEAR_CACHE_PASSWORD :: "string option"

text \<open>Python truthiness of an optional string: \<^verbatim>\<open>None\<close> and the empty string are false.\<close>

definition truthy :: "string option \<Rightarrow> bool" where
  "truthy v = (case v of None \<Rightarrow> False | Some s \<Rightarrow> s \<noteq> [])"

datatype startup_error =
    ValueError_BOT_TOKEN_not_found
  | ValueError_CHANNEL_LINK_not_found

datatype startup_print = Warning_clearcache_disabled

text \<open>
  Lines 20--30: the environment is a map from variable names to values; the module either
  raises \<^verbatim>\<open>ValueError\<close> or goes on with the settings, after printing a warning when the
  password is missing.
\<close>

definition load_config :: "(string \<rightharpoonup> string) \<Rightarrow> startup_error + (config \<times> startup_print list)" where
  "load_config getenv =
     (let cfg = \<lparr>BOT_TOKEN = getenv ''BOT_TOKEN'',
                 CHANNEL_LINK = getenv ''CHANNEL_LINK'',
                 PHOTO_URL = getenv ''PHOTO_URL'',
                 CLEAR_CACHE_PASSWORD = getenv ''CLEAR_CACHE_PASSWORD''\<rparr>
      in if \<not> truthy (BOT_TOKEN cfg) then Inl ValueError_BOT_TOKEN_not_found
         else if \<not> truthy (CHANNEL_LINK cfg) then Inl ValueError_CHANNEL_LINK_not_found
         else Inr (cfg, if \<not> truthy (CLEAR_CACHE_PASSWORD cfg)
                        then [Warning_clearcache_disabled] else []))"

subsection \<open>The in-memory store \<^verbatim>\<open>user_data\<close> (lines 37--38, 58--75)\<close>

record user_entry =
  requests :: "datetime list"
  blocked_until :: "datetime option"

type_synonym rate_store = "user_id \<rightharpoonup> user_entry"

text \<open>The default of \<^verbatim>\<open>user_data.get(user_id, {"requests": [], "blocked_until": None})\<close>.\<close>

definition fresh_entry :: user_entry where
  "fresh_entry = \<lparr>requests = [], blocked_until = None\<rparr>"

definition get_entry :: "rate_store \<Rightarrow> user_id \<Rightarrow> user_entry" where
  "get_entry ud uid = (case ud uid of None \<Rightarrow> fresh_entry | Some d \<Rightarrow> d)"

text \<open>
  \<^verbatim>\<open>is_blocked\<close> (lines 58--66).  When the user has an entry, \<^verbatim>\<open>data\<close> is that very
  dictionary, so the two assignments of lines 63--64 change the store; when the user has
  none, \<^verbatim>\<open>data\<close> is a new dictionary that is never stored.  A \<^verbatim>\<open>datetime\<close> is always
  truthy, so \<^verbatim>\<open>data["blocked_until"] and ...\<close> tests for \<^verbatim>\<open>None\<close> only.
\<close>

definition is_blocked ::
  "datetime \<Rightarrow> user_id \<Rightarrow> rate_store \<Rightarrow> (bool \<times> datetime option) \<times> rate_store" where
  "is_blocked now uid ud =
     (let data = get_entry ud uid;
          expired = (case blocked_until data of None \<Rightarrow> False | Some b \<Rightarrow> now > b);
          data' = (if expired then data\<lparr>blocked_until := None, requests := []\<rparr> else data);
          ud' = (if expired \<and> ud uid \<noteq> None then ud(uid \<mapsto> data') else ud)
      in ((blocked_until data' \<noteq> None, blocked_until data'), ud'))"

text \<open>\<^verbatim>\<open>record_request\<close> (lines 68--75).\<close>

definition record_request :: "datetime \<Rightarrow> user_id \<Rightarrow> rate_store \<Rightarrow> rate_store" where
  "record_request now uid ud =
     (let one_minute_ago = now - timedelta_minutes 1;
          data = get_entry ud uid;
          data1 = data\<lparr>requests := filter (\<lambda>t. t > one_minute_ago) (requests data)\<rparr>;
          data2 = data1\<lparr>requests := requests data1 @ [now]\<rparr>
      in ud(uid \<mapsto> data2))"

subsection \<open>Messages, replies and the per-user finite-state value\<close>

text \<open>
  Of an inbound message the handlers read the sender's id and the text, which the
  framework gives as \<^verbatim>\<open>None\<close> for a message without text (a photo, a sticker).
\<close>

record message =
  from_user :: user_id
  msg_text :: "string option"

text \<open>
  One constructor per reply the source sends: the warning of line 85, the block notice of
  line 90, the promotional photo (photo reference, channel link) of line 107 or text
  (channel link) of line 114, the password prompt of line 122, and the two outcomes of
  lines 129 and 131.
\<close>

datatype reply =
    Answer_warning
  | Answer_blocked
  | Answer_photo string "string option"
  | Answer_caption "string option"
  | Answer_enter_password
  | Answer_cache_cleared
  | Answer_wrong_password

datatype ClearCacheStates = waiting_for_password

text \<open>
  The framework's storage of states: \<^verbatim>\<open>None\<close> is the default state (the specification's
  Idle).  The storage is keyed by the user here; the framework's key also has the chat, which
  in a private chat is the same number.
\<close>

type_synonym fsm_storage = "user_id \<rightharpoonup> ClearCacheStates"

record world =
  user_data :: rate_store
  fsm :: fsm_storage

datatype handler_error = KeyError user_id

subsection \<open>The handlers (lines 77--133)\<close>

definition promo :: "config \<Rightarrow> reply" where
  "promo cfg =
     (case PHOTO_URL cfg of
        None \<Rightarrow> Answer_caption (CHANNEL_LINK cfg)
      | Some p \<Rightarrow> if p \<noteq> [] then Answer_photo p (CHANNEL_LINK cfg)
                  else Answer_caption (CHANNEL_LINK cfg))"

text \<open>
  \<^verbatim>\<open>start\<close> (lines 77--118).  \<open>now_record\<close> is the clock read inside
  \<^verbatim>\<open>record_request\<close>, \<open>now_block\<close> the one read at line 88.  The subscript
  \<^verbatim>\<open>user_data[user_id]\<close> of line 81 raises \<^verbatim>\<open>KeyError\<close> on a missing key.
\<close>

definition start ::
  "config \<Rightarrow> datetime \<Rightarrow> datetime \<Rightarrow> message \<Rightarrow> world \<Rightarrow> handler_error + (world \<times> reply list)" where
  "start cfg now_record now_block m w =
     (let uid = from_user m;
          ud1 = record_request now_record uid (user_data w)
      in case ud1 uid of
           None \<Rightarrow> Inl (KeyError uid)
         | Some data \<Rightarrow>
             (let request_count = length (requests data);
                  warned = (if request_count > WARNING_THRESHOLD
                               \<and> request_count \<le> MAX_REQUESTS_PER_MINUTE
                            then [Answer_warning] else [])
              in if request_count > MAX_REQUESTS_PER_MINUTE
                 then (let block_until = now_block + timedelta_minutes BLOCK_DURATION_MINUTES
                       in Inr (w\<lparr>user_data := ud1(uid \<mapsto> data\<lparr>blocked_until := Some block_until\<rparr>)\<rparr>,
                               warned @ [Answer_blocked]))
                 else Inr (w\<lparr>user_data := ud1\<rparr>, warned @ [promo cfg])))"

text \<open>\<^verbatim>\<open>cmd_clearcache\<close> (lines 121--123).\<close>

definition cmd_clearcache :: "message \<Rightarrow> world \<Rightarrow> handler_error + (world \<times> reply list)" where
  "cmd_clearcache m w =
     Inr (w\<lparr>fsm := (fsm w)(from_user m \<mapsto> waiting_for_password)\<rparr>, [Answer_enter_password])"

text \<open>
  \<^verbatim>\<open>process_clear_password\<close> (lines 125--133).  The comparison of line 126 is between two
  optional strings; \<^verbatim>\<open>state.clear()\<close> puts the user back into the default state.
\<close>

definition process_clear_password ::
  "config \<Rightarrow> message \<Rightarrow> world \<Rightarrow> handler_error + (world \<times> reply list)" where
  "process_clear_password cfg m w =
     (let (w1, out) = (if msg_text m = CLEAR_CACHE_PASSWORD cfg
                       then (w\<lparr>user_data := Map.empty\<rparr>, [Answer_cache_cleared])
                       else (w, [Answer_wrong_password]))
      in Inr (w1\<lparr>fsm := (fsm w1)(from_user m := None)\<rparr>, out))"

subsection \<open>The middleware and the dispatcher (lines 44--56, 135--149)\<close>

text \<open>The clock readings of one message: in \<^verbatim>\<open>is_blocked\<close>, in \<^verbatim>\<open>record_request\<close>, at line 88.\<close>

record clock =
  at_lookup :: datetime
  at_record :: datetime
  at_block :: datetime

text \<open>
  \<^verbatim>\<open>AntiSpamMiddleware.__call__\<close> (lines 45--56); every event of the message observer is a
  message.  The reading of the clock at line 50 is not used.
\<close>

definition AntiSpamMiddleware ::
  "(message \<Rightarrow> world \<Rightarrow> handler_error + (world \<times> reply list)) \<Rightarrow>
   clock \<Rightarrow> message \<Rightarrow> world \<Rightarrow> handler_error + (world \<times> reply list)" where
  "AntiSpamMiddleware handler clk event w =
     (let user_id = from_user event;
          ((blocked, _), ud1) = is_blocked (at_lookup clk) user_id (user_data w);
          w1 = w\<lparr>user_data := ud1\<rparr>
      in if blocked then Inr (w1, []) else handler event w1)"

text \<open>
  The framework's command filter on the text of a message: the first whitespace-separated
  word is a slash followed by the command name, optionally followed by \<^verbatim>\<open>@\<close> and a bot
  name (taken to be this bot's).  A message without text is not a command (the caption of a
  photo, which the framework would also look at, is not part of the message here).
\<close>

definition is_space :: "char \<Rightarrow> bool" where
  "is_space c = (c = CHR '' '' \<or> c = CHR 0x09 \<or> c = CHR 0x0A \<or> c = CHR 0x0D)"

definition Command :: "string \<Rightarrow> message \<Rightarrow> bool" where
  "Command name m =
     (case msg_text m of
        None \<Rightarrow> False
      | Some s \<Rightarrow>
          (let full_command = takeWhile (\<lambda>c. \<not> is_space c) (dropWhile is_space s)
           in case full_command of
                [] \<Rightarrow> False
              | prefix # rest \<Rightarrow> prefix = CHR ''/'' \<and> takeWhile (\<lambda>c. c \<noteq> CHR ''@'') rest = name))"

definition CommandStart :: "message \<Rightarrow> bool" where
  "CommandStart m = Command ''start'' m"

text \<open>
  \<^verbatim>\<open>main\<close> (lines 135--149) registers three handlers on the message observer, in this
  order, each with one filter.  Only the third filter looks at the user's state.
\<close>

type_synonym registered =
  "(message \<Rightarrow> world \<Rightarrow> bool) \<times> (clock \<Rightarrow> message \<Rightarrow> world \<Rightarrow> handler_error + (world \<times> reply list))"

definition registered_handlers :: "config \<Rightarrow> registered list" where
  "registered_handlers cfg =
     [(\<lambda>m w. CommandStart m, \<lambda>clk. start cfg (at_record clk) (at_block clk)),
      (\<lambda>m w. Command ''clearcache'' m, \<lambda>clk. cmd_clearcache),
      (\<lambda>m w. fsm w (from_user m) = Some waiting_for_password, \<lambda>clk. process_clear_password cfg)]"

text \<open>
  The observer calls the first registered handler whose filter accepts the message, wrapped
  in the middleware of line 139; a message that no filter accepts is left unhandled.
\<close>

fun trigger :: "registered list \<Rightarrow> clock \<Rightarrow> message \<Rightarrow> world \<Rightarrow> handler_error + (world \<times> reply list)" where
  "trigger [] clk m w = Inr (w, [])"
| "trigger ((flt, h) # hs) clk m w =
     (if flt m w then AntiSpamMiddleware (h clk) clk m w else trigger hs clk m w)"

definition feed_update :: "config \<Rightarrow> clock \<Rightarrow> message \<Rightarrow> world \<Rightarrow> handler_error + (world \<times> reply list)" where
  "feed_update cfg clk m w = trigger (registered_handlers cfg) clk m w"

subsection \<open>Feeding several messages, and the states the bot can be in\<close>

text \<open>
  The polling loop hands the updates to the dispatcher one after the other; the replies are
  kept per message.  No handler raises (\<open>feed_update_returns\<close> below), so the \<open>Inl\<close>
  branches are never taken.
\<close>

fun feed_updates ::
  "config \<Rightarrow> (clock \<times> message) list \<Rightarrow> world \<Rightarrow> handler_error + (world \<times> reply list list)" where
  "feed_updates cfg [] w = Inr (w, [])"
| "feed_updates cfg ((clk, m) # rest) w =
     (case feed_update cfg clk m w of
        Inl e \<Rightarrow> Inl e
      | Inr (w1, out) \<Rightarrow>
          (case feed_updates cfg rest w1 of
             Inl e \<Rightarrow> Inl e
           | Inr (w2, outs) \<Rightarrow> Inr (w2, out # outs)))"

text \<open>Line 38 and the framework's empty storage: the state when polling starts.\<close>

definition initial_world :: world where
  "initial_world = \<lparr>user_data = Map.empty, fsm = Map.empty\<rparr>"

inductive reachable :: "config \<Rightarrow> world \<Rightarrow> bool" for cfg :: config where
  reachable_initial: "reachable cfg initial_world"
| reachable_step: "reachable cfg w \<Longrightarrow> feed_update cfg clk m w = Inr (w', out) \<Longrightarrow> reachable cfg w'"

text \<open>An entry that carries a block has a request history that is not empty.\<close>

definition store_ok :: "rate_store \<Rightarrow> bool" where
  "store_ok ud = (\<forall>u d. ud u = Some d \<longrightarrow> blocked_until d \<noteq> None \<longrightarrow> requests d \<noteq> [])"

subsection \<open>Concrete inputs\<close>

definition example_cfg :: config where
  "example_cfg = \<lparr>BOT_TOKEN = Some ''token'', CHANNEL_LINK = Some ''https://t.me/channel'',
                   PHOTO_URL = None, CLEAR_CACHE_PASSWORD = Some ''secret''\<rparr>"

definition example_cfg_no_password :: config where
  "example_cfg_no_password = example_cfg\<lparr>CLEAR_CACHE_PASSWORD := None\<rparr>"

definition clock_at :: "datetime \<Rightarrow> clock" where
  "clock_at t = \<lparr>at_lookup = t, at_record = t, at_block = t\<rparr>"

definition text_message :: "user_id \<Rightarrow> string \<Rightarrow> message" where
  "text_message u s = \<lparr>from_user = u, msg_text = Some s\<rparr>"

section \<open>Auxiliary facts\<close>

subsection \<open>The block lookup and the middleware\<close>

lemma is_blocked_still:
  assumes "ud uid = Some d" "blocked_until d = Some b" "now \<le> b"
  shows "is_blocked now uid ud = ((True, Some b), ud)"
  using assms by (simp add: is_blocked_def get_entry_def Let_def)

lemma is_blocked_expired:
  assumes "ud uid = Some d" "blocked_until d = Some b" "b < now"
  shows "is_blocked now uid ud = ((False, None), ud(uid \<mapsto> \<lparr>requests = [], blocked_until = None\<rparr>))"
  using assms by (cases d) (simp add: is_blocked_def get_entry_def Let_def)

lemma is_blocked_free:
  assumes "blocked_until (get_entry ud uid) = None"
  shows "is_blocked now uid ud = ((False, None), ud)"
  using assms by (simp add: is_blocked_def get_entry_def Let_def split: option.splits)

lemma is_blocked_empty: "is_blocked now u Map.empty = ((False, None), Map.empty)"
  by (simp add: is_blocked_def get_entry_def fresh_entry_def Let_def)

lemma world_user_data_same [simp]: "w\<lparr>user_data := user_data w\<rparr> = w"
  by simp

lemma middleware_free:
  assumes "blocked_until (get_entry (user_data w) (from_user m)) = None"
  shows "AntiSpamMiddleware h clk m w = h m w"
  using assms by (simp add: AntiSpamMiddleware_def is_blocked_free)

lemma middleware_still:
  assumes "user_data w (from_user m) = Some d" "blocked_until d = Some b" "at_lookup clk \<le> b"
  shows "AntiSpamMiddleware h clk m w = Inr (w, [])"
  using assms by (simp add: AntiSpamMiddleware_def is_blocked_still)

lemma middleware_expired:
  assumes "user_data w (from_user m) = Some d" "blocked_until d = Some b" "b < at_lookup clk"
  shows "AntiSpamMiddleware h clk m w =
           h m (w\<lparr>user_data := (user_data w)(from_user m \<mapsto> \<lparr>requests = [], blocked_until = None\<rparr>)\<rparr>)"
  using assms by (simp add: AntiSpamMiddleware_def is_blocked_expired)

lemma middleware_passed:
  assumes "\<not> fst (fst (is_blocked (at_lookup clk) (from_user m) (user_data w)))"
  shows "AntiSpamMiddleware h clk m w =
           h m (w\<lparr>user_data := snd (is_blocked (at_lookup clk) (from_user m) (user_data w))\<rparr>)"
  using assms
  by (cases "is_blocked (at_lookup clk) (from_user m) (user_data w)")
     (auto simp: AntiSpamMiddleware_def)

subsection \<open>The dispatcher, unfolded over the three registrations\<close>

lemma feed_update_unfold:
  "feed_update cfg clk m w =
     (if CommandStart m then AntiSpamMiddleware (start cfg (at_record clk) (at_block clk)) clk m w
      else if Command ''clearcache'' m then AntiSpamMiddleware cmd_clearcache clk m w
      else if fsm w (from_user m) = Some waiting_for_password
           then AntiSpamMiddleware (process_clear_password cfg) clk m w
      else Inr (w, []))"
  by (simp add: feed_update_def registered_handlers_def)

lemma Command_clearcache_not_start: "Command ''clearcache'' m \<Longrightarrow> \<not> CommandStart m"
  by (auto simp: Command_def CommandStart_def Let_def split: option.splits list.splits)

subsection \<open>The handlers as closed expressions\<close>

lemma password_value:
  "process_clear_password cfg m w =
     Inr (\<lparr>user_data = (if msg_text m = CLEAR_CACHE_PASSWORD cfg then Map.empty else user_data w),
           fsm = (fsm w)(from_user m := None)\<rparr>,
          [if msg_text m = CLEAR_CACHE_PASSWORD cfg then Answer_cache_cleared
           else Answer_wrong_password])"
  by (cases w) (simp add: process_clear_password_def)

lemma start_fresh_window:
  assumes "get_entry ud (from_user m) = \<lparr>requests = [], blocked_until = None\<rparr>"
  shows "start cfg nr nb m (w\<lparr>user_data := ud\<rparr>) =
           Inr (w\<lparr>user_data := ud(from_user m \<mapsto> \<lparr>requests = [nr], blocked_until = None\<rparr>)\<rparr>,
                [promo cfg])"
  using assms
  by (simp add: start_def record_request_def Let_def WARNING_THRESHOLD_def
        MAX_REQUESTS_PER_MINUTE_def)

lemma start_returns:
  "\<exists>w' out. start cfg nr nb m w = Inr (w', out) \<and> fsm w' = fsm w"
  by (simp add: start_def record_request_def Let_def)

lemma greeting_step:
  assumes cmd: "CommandStart m"
      and ent: "get_entry (user_data w) (from_user m) = \<lparr>requests = rs, blocked_until = None\<rparr>"
      and win: "\<forall>t \<in> set rs. at_record clk - timedelta_minutes 1 < t"
  shows "feed_update cfg clk m w =
           (if 5 \<le> length rs
            then Inr (w\<lparr>user_data := (user_data w)(from_user m \<mapsto>
                          \<lparr>requests = rs @ [at_record clk],
                           blocked_until = Some (at_block clk + timedelta_minutes BLOCK_DURATION_MINUTES)\<rparr>)\<rparr>,
                      [Answer_blocked])
            else Inr (w\<lparr>user_data := (user_data w)(from_user m \<mapsto>
                          \<lparr>requests = rs @ [at_record clk], blocked_until = None\<rparr>)\<rparr>,
                      (if length rs = 4 then [Answer_warning] else []) @ [promo cfg]))"
proof -
  have keep: "filter (\<lambda>t. at_record clk - timedelta_minutes 1 < t) rs = rs"
    using win by (simp add: filter_id_conv)
  show ?thesis
    using cmd ent keep
    by (auto simp: feed_update_unfold middleware_free start_def record_request_def Let_def
          WARNING_THRESHOLD_def MAX_REQUESTS_PER_MINUTE_def)
qed

lemma middleware_returns:
  assumes "\<And>w0. \<exists>w1 out. h m w0 = Inr (w1, out)"
  shows "\<exists>w' out. AntiSpamMiddleware h clk m w = Inr (w', out)"
proof (cases "is_blocked (at_lookup clk) (from_user m) (user_data w)")
  case (Pair r ud1)
  then show ?thesis
    using assms [of "w\<lparr>user_data := ud1\<rparr>"]
    by (cases r) (auto simp: AntiSpamMiddleware_def Let_def)
qed

lemma feed_update_returns: "\<exists>w' out. feed_update cfg clk m w = Inr (w', out)"
proof -
  have "\<exists>w1 out. start cfg nr nb m w0 = Inr (w1, out)" for nr nb w0
    using start_returns [of cfg nr nb m w0] by blast
  moreover have "\<exists>w1 out. cmd_clearcache m w0 = Inr (w1, out)" for w0
    by (simp add: cmd_clearcache_def)
  moreover have "\<exists>w1 out. process_clear_password cfg m w0 = Inr (w1, out)" for w0
    by (simp add: password_value)
  ultimately show ?thesis
    by (simp add: feed_update_unfold middleware_returns)
qed

subsection \<open>An invariant of the store\<close>

lemma store_ok_is_blocked: "store_ok ud \<Longrightarrow> store_ok (snd (is_blocked now uid ud))"
  by (auto simp: store_ok_def is_blocked_def Let_def get_entry_def split: option.splits if_splits)

lemma store_ok_start:
  "store_ok (user_data w) \<Longrightarrow> start cfg nr nb m w = Inr (w', out) \<Longrightarrow> store_ok (user_data w')"
  by (auto simp: store_ok_def start_def record_request_def Let_def split: option.splits if_splits)

lemma store_ok_cmd:
  "store_ok (user_data w) \<Longrightarrow> cmd_clearcache m w = Inr (w', out) \<Longrightarrow> store_ok (user_data w')"
  by (auto simp: cmd_clearcache_def)

lemma store_ok_password:
  "store_ok (user_data w) \<Longrightarrow> process_clear_password cfg m w = Inr (w', out) \<Longrightarrow> store_ok (user_data w')"
  by (auto simp: process_clear_password_def store_ok_def split: if_splits)

lemma store_ok_middleware:
  assumes "store_ok (user_data w)"
      and "\<And>w0 w1 out1. store_ok (user_data w0) \<Longrightarrow> h m w0 = Inr (w1, out1) \<Longrightarrow> store_ok (user_data w1)"
      and "AntiSpamMiddleware h clk m w = Inr (w', out)"
  shows "store_ok (user_data w')"
proof -
  obtain r ud1 where ib: "is_blocked (at_lookup clk) (from_user m) (user_data w) = (r, ud1)"
    by (cases "is_blocked (at_lookup clk) (from_user m) (user_data w)") auto
  have ok1: "store_ok ud1"
    using store_ok_is_blocked [OF assms(1), of "at_lookup clk" "from_user m"] ib by simp
  show ?thesis
  proof (cases "fst r")
    case True
    with assms(3) ib have "w' = w\<lparr>user_data := ud1\<rparr>"
      by (cases r) (simp add: AntiSpamMiddleware_def)
    with ok1 show ?thesis by simp
  next
    case False
    with assms(3) ib have "h m (w\<lparr>user_data := ud1\<rparr>) = Inr (w', out)"
      by (cases r) (simp add: AntiSpamMiddleware_def)
    with assms(2) [of "w\<lparr>user_data := ud1\<rparr>" w' out] ok1 show ?thesis by simp
  qed
qed

lemma store_ok_feed_update:
  assumes "store_ok (user_data w)" "feed_update cfg clk m w = Inr (w', out)"
  shows "store_ok (user_data w')"
  using assms
  by (auto simp: feed_update_unfold split: if_splits
           intro: store_ok_middleware store_ok_start store_ok_cmd store_ok_password)

lemma reachable_store_ok: "reachable cfg w \<Longrightarrow> store_ok (user_data w)"
proof (induction rule: reachable.induct)
  case reachable_initial
  show ?case by (simp add: initial_world_def store_ok_def)
next
  case (reachable_step w clk m w' out)
  then show ?case by (blast intro: store_ok_feed_update)
qed

lemma reachable_empty_history_unblocked:
  assumes "reachable cfg w" "requests (get_entry (user_data w) uid) = []"
  shows "blocked_until (get_entry (user_data w) uid) = None"
proof (cases "user_data w uid")
  case None
  then show ?thesis by (simp add: get_entry_def fresh_entry_def)
next
  case (Some d)
  with assms(2) have "requests d = []" by (simp add: get_entry_def)
  with reachable_store_ok [OF assms(1)] Some have "blocked_until d = None"
    by (cases "blocked_until d") (auto simp: store_ok_def)
  with Some show ?thesis by (simp add: get_entry_def)
qed

subsection \<open>The concrete inputs\<close>

lemma CommandStart_example [simp]: "CommandStart (text_message u ''/start'')"
  by (simp add: CommandStart_def Command_def text_message_def is_space_def)

lemma Command_clearcache_example [simp]: "Command ''clearcache'' (text_message u ''/clearcache'')"
  by (simp add: Command_def text_message_def is_space_def)

lemma not_commands_example [simp]:
  "\<not> CommandStart (text_message u ''secret'')" "\<not> Command ''clearcache'' (text_message u ''secret'')"
  "\<not> CommandStart (text_message u ''wrong'')" "\<not> Command ''clearcache'' (text_message u ''wrong'')"
  "\<not> CommandStart (text_message u ''/clearcache'')"
  "\<not> CommandStart \<lparr>from_user = u, msg_text = None\<rparr>"
  "\<not> Command ''clearcache'' \<lparr>from_user = u, msg_text = None\<rparr>"
  by (simp_all add: CommandStart_def Command_def text_message_def is_space_def)

lemma from_user_text_message [simp]: "from_user (text_message u s) = u"
  by (simp add: text_message_def)

lemma msg_text_text_message [simp]: "msg_text (text_message u s) = Some s"
  by (simp add: text_message_def)

section \<open>The claims\<close>

text \<open>
  C1.  With no password configured, \<^verbatim>\<open>/clearcache\<close> from a user who is not blocked is
  answered by the password prompt and puts the user into \<open>waiting_for_password\<close>:
  \<^verbatim>\<open>cmd_clearcache\<close> does not look at \<^verbatim>\<open>CLEAR_CACHE_PASSWORD\<close>, although line 30 prints
  that the command is disabled.  A following message without text is then compared with
  \<^verbatim>\<open>None\<close>, found equal, and clears the store of every user.
\<close>

theorem clearcache_without_password_prompts:
  "CLEAR_CACHE_PASSWORD example_cfg_no_password = None
   \<and> feed_update example_cfg_no_password (clock_at 0) (text_message 7 ''/clearcache'') initial_world
       = Inr (\<lparr>user_data = Map.empty, fsm = [7 \<mapsto> waiting_for_password]\<rparr>, [Answer_enter_password])
   \<and> feed_update example_cfg_no_password (clock_at 1) \<lparr>from_user = 7, msg_text = None\<rparr>
        \<lparr>user_data = [8 \<mapsto> \<lparr>requests = [0], blocked_until = Some 5\<rparr>],
         fsm = [7 \<mapsto> waiting_for_password]\<rparr>
       = Inr (\<lparr>user_data = Map.empty, fsm = Map.empty\<rparr>, [Answer_cache_cleared])"
  by (simp add: feed_update_unfold middleware_free password_value cmd_clearcache_def
        get_entry_def fresh_entry_def initial_world_def example_cfg_no_password_def
        example_cfg_def clock_at_def)

text \<open>
  C2, as amended.  For a user in \<open>waiting_for_password\<close> whom the middleware lets through, a
  message that is neither the greeting command nor \<^verbatim>\<open>/clearcache\<close> is the password
  attempt: its text is compared with the configured password, the reply is the success or
  the failure message, and the user is back in the default state.  A greeting command is
  handled by \<^verbatim>\<open>start\<close> and \<^verbatim>\<open>/clearcache\<close> by \<^verbatim>\<open>cmd_clearcache\<close>, both registered before
  the password handler and without a state filter; the user stays in
  \<open>waiting_for_password\<close>.
\<close>

theorem awaiting_dispatch:
  assumes "fsm w (from_user m) = Some waiting_for_password"
      and "\<not> fst (fst (is_blocked (at_lookup clk) (from_user m) (user_data w)))"
  shows "(\<not> CommandStart m \<and> \<not> Command ''clearcache'' m \<longrightarrow>
            feed_update cfg clk m w =
              Inr (\<lparr>user_data = (if msg_text m = CLEAR_CACHE_PASSWORD cfg then Map.empty
                                 else snd (is_blocked (at_lookup clk) (from_user m) (user_data w))),
                    fsm = (fsm w)(from_user m := None)\<rparr>,
                   [if msg_text m = CLEAR_CACHE_PASSWORD cfg then Answer_cache_cleared
                    else Answer_wrong_password]))
       \<and> (CommandStart m \<longrightarrow>
            (\<exists>w' out. feed_update cfg clk m w = Inr (w', out)
                     \<and> start cfg (at_record clk) (at_block clk) m
                          (w\<lparr>user_data := snd (is_blocked (at_lookup clk) (from_user m) (user_data w))\<rparr>)
                        = Inr (w', out)
                     \<and> fsm w' = fsm w))
       \<and> (Command ''clearcache'' m \<longrightarrow>
            feed_update cfg clk m w =
              Inr (w\<lparr>user_data := snd (is_blocked (at_lookup clk) (from_user m) (user_data w))\<rparr>,
                   [Answer_enter_password]))"
proof (intro conjI impI)
  assume "\<not> CommandStart m \<and> \<not> Command ''clearcache'' m"
  with assms show "feed_update cfg clk m w =
      Inr (\<lparr>user_data = (if msg_text m = CLEAR_CACHE_PASSWORD cfg then Map.empty
                         else snd (is_blocked (at_lookup clk) (from_user m) (user_data w))),
            fsm = (fsm w)(from_user m := None)\<rparr>,
           [if msg_text m = CLEAR_CACHE_PASSWORD cfg then Answer_cache_cleared
            else Answer_wrong_password])"
    by (simp add: feed_update_unfold middleware_passed password_value)
next
  let ?w1 = "w\<lparr>user_data := snd (is_blocked (at_lookup clk) (from_user m) (user_data w))\<rparr>"
  assume "CommandStart m"
  with assms have "feed_update cfg clk m w = start cfg (at_record clk) (at_block clk) m ?w1"
    by (simp add: feed_update_unfold middleware_passed)
  moreover obtain w' out where
    "start cfg (at_record clk) (at_block clk) m ?w1 = Inr (w', out)" "fsm w' = fsm ?w1"
    using start_returns [of cfg "at_record clk" "at_block clk" m ?w1] by blast
  ultimately show "\<exists>w' out. feed_update cfg clk m w = Inr (w', out)
      \<and> start cfg (at_record clk) (at_block clk) m ?w1 = Inr (w', out) \<and> fsm w' = fsm w"
    by simp
next
  assume c: "Command ''clearcache'' m"
  have "(fsm w)(from_user m \<mapsto> waiting_for_password) = fsm w"
    using assms(1) by (simp add: fun_upd_idem)
  with c assms show "feed_update cfg clk m w =
      Inr (w\<lparr>user_data := snd (is_blocked (at_lookup clk) (from_user m) (user_data w))\<rparr>,
           [Answer_enter_password])"
    by (simp add: feed_update_unfold middleware_passed cmd_clearcache_def
          Command_clearcache_not_start)
qed

theorem awaiting_dispatch_witness:
  "feed_update example_cfg (clock_at 0) (text_message 7 ''wrong'')
       \<lparr>user_data = Map.empty, fsm = [7 \<mapsto> waiting_for_password]\<rparr>
     = Inr (\<lparr>user_data = Map.empty, fsm = Map.empty\<rparr>, [Answer_wrong_password])
   \<and> (\<exists>w' out. feed_update example_cfg (clock_at 0) (text_message 7 ''/start'')
                  \<lparr>user_data = Map.empty, fsm = [7 \<mapsto> waiting_for_password]\<rparr> = Inr (w', out)
               \<and> fsm w' = [7 \<mapsto> waiting_for_password])
   \<and> feed_update example_cfg (clock_at 0) (text_message 7 ''/clearcache'')
       \<lparr>user_data = Map.empty, fsm = [7 \<mapsto> waiting_for_password]\<rparr>
     = Inr (\<lparr>user_data = Map.empty, fsm = [7 \<mapsto> waiting_for_password]\<rparr>, [Answer_enter_password])"
proof -
  let ?w = "\<lparr>user_data = Map.empty, fsm = [7 \<mapsto> waiting_for_password]\<rparr>"
  have pw: "feed_update example_cfg (clock_at 0) (text_message 7 ''wrong'') ?w
              = Inr (\<lparr>user_data = Map.empty, fsm = Map.empty\<rparr>, [Answer_wrong_password])"
    using awaiting_dispatch [of ?w "text_message 7 ''wrong''" "clock_at 0" example_cfg]
    by (simp add: is_blocked_empty example_cfg_def)
  have gr: "\<exists>w' out. feed_update example_cfg (clock_at 0) (text_message 7 ''/start'') ?w = Inr (w', out)
              \<and> fsm w' = [7 \<mapsto> waiting_for_password]"
    using awaiting_dispatch [of ?w "text_message 7 ''/start''" "clock_at 0" example_cfg]
    by (auto simp: is_blocked_empty)
  have cc: "feed_update example_cfg (clock_at 0) (text_message 7 ''/clearcache'') ?w
              = Inr (?w, [Answer_enter_password])"
    using awaiting_dispatch [of ?w "text_message 7 ''/clearcache''" "clock_at 0" example_cfg]
    by (simp add: is_blocked_empty)
  from pw gr cc show ?thesis by blast
qed

text \<open>
  C2, as stated, fails: a user in \<open>waiting_for_password\<close> who is not blocked sends
  \<^verbatim>\<open>/start\<close>; the greeting handler runs (the promotional text is sent and the request is
  recorded), nothing is compared with the password, and the user is still in
  \<open>waiting_for_password\<close>.
\<close>

theorem awaiting_greeting_counterexample:
  "fsm \<lparr>user_data = Map.empty, fsm = [7 \<mapsto> waiting_for_password]\<rparr> 7 = Some waiting_for_password
   \<and> \<not> fst (fst (is_blocked 0 7 Map.empty))
   \<and> feed_update example_cfg (clock_at 0) (text_message 7 ''/start'')
        \<lparr>user_data = Map.empty, fsm = [7 \<mapsto> waiting_for_password]\<rparr>
       = Inr (\<lparr>user_data = [7 \<mapsto> \<lparr>requests = [0], blocked_until = None\<rparr>],
               fsm = [7 \<mapsto> waiting_for_password]\<rparr>,
              [Answer_caption (Some ''https://t.me/channel'')])
   \<and> feed_update example_cfg (clock_at 0) (text_message 7 ''/start'')
        \<lparr>user_data = Map.empty, fsm = [7 \<mapsto> waiting_for_password]\<rparr>
       \<noteq> process_clear_password example_cfg (text_message 7 ''/start'')
            \<lparr>user_data = Map.empty, fsm = [7 \<mapsto> waiting_for_password]\<rparr>"
  by (simp add: feed_update_unfold middleware_free get_entry_def fresh_entry_def
        is_blocked_empty password_value start_def record_request_def Let_def
        WARNING_THRESHOLD_def MAX_REQUESTS_PER_MINUTE_def promo_def example_cfg_def clock_at_def)

text \<open>
  C3.  From a state the bot can reach, a user whose request history is empty sends the
  greeting command six times, the clock readings of \<^verbatim>\<open>record_request\<close> not decreasing and
  the sixth less than 60 seconds after the first.  Requests 1 to 4 are answered by the
  promotional payload alone, request 5 by the warning followed by the promotional payload,
  and request 6 by the block notice alone; after it \<^verbatim>\<open>blocked_until\<close> is the clock reading
  of line 88 plus three minutes.
\<close>

theorem six_greetings:
  assumes reach: "reachable cfg w0"
      and empty: "requests (get_entry (user_data w0) uid) = []"
      and msgs: "\<forall>m \<in> set [m1, m2, m3, m4, m5, m6]. CommandStart m \<and> from_user m = uid"
      and order: "sorted (map at_record [c1, c2, c3, c4, c5, c6])"
      and window: "at_record c6 - at_record c1 < timedelta_minutes 1"
  shows "feed_updates cfg [(c1, m1), (c2, m2), (c3, m3), (c4, m4), (c5, m5), (c6, m6)] w0 =
           Inr (w0\<lparr>user_data := (user_data w0)(uid \<mapsto>
                     \<lparr>requests = map at_record [c1, c2, c3, c4, c5, c6],
                      blocked_until = Some (at_block c6 + timedelta_minutes BLOCK_DURATION_MINUTES)\<rparr>)\<rparr>,
                [[promo cfg], [promo cfg], [promo cfg], [promo cfg],
                 [Answer_warning, promo cfg], [Answer_blocked]])"
proof -
  define W where "W rs = w0\<lparr>user_data := (user_data w0)(uid \<mapsto> \<lparr>requests = rs, blocked_until = None\<rparr>)\<rparr>"
    for rs
  define r1 r2 r3 r4 r5 r6 where rdefs: "r1 = at_record c1" "r2 = at_record c2" "r3 = at_record c3"
    "r4 = at_record c4" "r5 = at_record c5" "r6 = at_record c6"
  have cmds: "CommandStart m1" "CommandStart m2" "CommandStart m3" "CommandStart m4"
      "CommandStart m5" "CommandStart m6"
    and usr: "from_user m1 = uid" "from_user m2 = uid" "from_user m3 = uid" "from_user m4 = uid"
      "from_user m5 = uid" "from_user m6 = uid"
    using msgs by simp_all
  have ord: "r1 \<le> r2" "r2 \<le> r3" "r3 \<le> r4" "r4 \<le> r5" "r5 \<le> r6"
    using order by (simp_all add: rdefs)
  have win: "r6 - timedelta_minutes 1 < r1"
    using window by (simp add: rdefs)
  have e0: "get_entry (user_data w0) uid = \<lparr>requests = [], blocked_until = None\<rparr>"
    using reachable_empty_history_unblocked [OF reach empty] empty
    by (cases "get_entry (user_data w0) uid") simp
  have first: "feed_update cfg c1 m1 w0 = Inr (W [r1], [promo cfg])"
    using greeting_step [of m1 w0 "[]" c1 cfg] cmds(1) usr(1) e0 by (simp add: W_def rdefs)
  have later: "feed_update cfg c m (W rs) =
      (if 5 \<le> length rs
       then Inr (w0\<lparr>user_data := (user_data w0)(uid \<mapsto>
                     \<lparr>requests = rs @ [at_record c],
                      blocked_until = Some (at_block c + timedelta_minutes BLOCK_DURATION_MINUTES)\<rparr>)\<rparr>,
                 [Answer_blocked])
       else Inr (W (rs @ [at_record c]), (if length rs = 4 then [Answer_warning] else []) @ [promo cfg]))"
    if "CommandStart m" "from_user m = uid" "\<forall>t \<in> set rs. at_record c - timedelta_minutes 1 < t"
    for c m rs
    using greeting_step [of m "W rs" rs c cfg] that by (simp add: W_def get_entry_def)
  have w2: "\<forall>t \<in> set [r1]. at_record c2 - timedelta_minutes 1 < t"
    using ord win by (simp add: rdefs)
  have w3: "\<forall>t \<in> set [r1, r2]. at_record c3 - timedelta_minutes 1 < t"
    using ord win by (simp add: rdefs)
  have w4: "\<forall>t \<in> set [r1, r2, r3]. at_record c4 - timedelta_minutes 1 < t"
    using ord win by (simp add: rdefs)
  have w5: "\<forall>t \<in> set [r1, r2, r3, r4]. at_record c5 - timedelta_minutes 1 < t"
    using ord win by (simp add: rdefs)
  have w6: "\<forall>t \<in> set [r1, r2, r3, r4, r5]. at_record c6 - timedelta_minutes 1 < t"
    using ord win by (simp add: rdefs)
  have s2: "feed_update cfg c2 m2 (W [r1]) = Inr (W [r1, r2], [promo cfg])"
    using later [OF cmds(2) usr(2) w2] by (simp add: rdefs)
  have s3: "feed_update cfg c3 m3 (W [r1, r2]) = Inr (W [r1, r2, r3], [promo cfg])"
    using later [OF cmds(3) usr(3) w3] by (simp add: rdefs)
  have s4: "feed_update cfg c4 m4 (W [r1, r2, r3]) = Inr (W [r1, r2, r3, r4], [promo cfg])"
    using later [OF cmds(4) usr(4) w4] by (simp add: rdefs)
  have s5: "feed_update cfg c5 m5 (W [r1, r2, r3, r4]) =
              Inr (W [r1, r2, r3, r4, r5], [Answer_warning, promo cfg])"
    using later [OF cmds(5) usr(5) w5] by (simp add: rdefs)
  have s6: "feed_update cfg c6 m6 (W [r1, r2, r3, r4, r5]) =
              Inr (w0\<lparr>user_data := (user_data w0)(uid \<mapsto>
                     \<lparr>requests = [r1, r2, r3, r4, r5, r6],
                      blocked_until = Some (at_block c6 + timedelta_minutes BLOCK_DURATION_MINUTES)\<rparr>)\<rparr>,
                   [Answer_blocked])"
    using later [OF cmds(6) usr(6) w6] by (simp add: rdefs)
  show ?thesis
    by (simp add: first s2 s3 s4 s5 s6) (simp add: rdefs)
qed

theorem six_greetings_witness:
  "feed_updates example_cfg
     [(clock_at 0, text_message 7 ''/start''),
      (clock_at (timedelta_seconds 10), text_message 7 ''/start''),
      (clock_at (timedelta_seconds 20), text_message 7 ''/start''),
      (clock_at (timedelta_seconds 30), text_message 7 ''/start''),
      (clock_at (timedelta_seconds 40), text_message 7 ''/start''),
      (clock_at (timedelta_seconds 50), text_message 7 ''/start'')] initial_world =
   Inr (initial_world\<lparr>user_data := (user_data initial_world)(7 \<mapsto>
          \<lparr>requests = [0, timedelta_seconds 10, timedelta_seconds 20, timedelta_seconds 30,
                        timedelta_seconds 40, timedelta_seconds 50],
           blocked_until = Some (timedelta_seconds 50 + timedelta_minutes 3)\<rparr>)\<rparr>,
        [[Answer_caption (Some ''https://t.me/channel'')],
         [Answer_caption (Some ''https://t.me/channel'')],
         [Answer_caption (Some ''https://t.me/channel'')],
         [Answer_caption (Some ''https://t.me/channel'')],
         [Answer_warning, Answer_caption (Some ''https://t.me/channel'')],
         [Answer_blocked]])"
  using six_greetings [where cfg = example_cfg and ?w0.0 = initial_world and uid = 7
      and ?m1.0 = "text_message 7 ''/start''" and ?m2.0 = "text_message 7 ''/start''"
      and ?m3.0 = "text_message 7 ''/start''" and ?m4.0 = "text_message 7 ''/start''"
      and ?m5.0 = "text_message 7 ''/start''" and ?m6.0 = "text_message 7 ''/start''"
      and ?c1.0 = "clock_at 0" and ?c2.0 = "clock_at (timedelta_seconds 10)"
      and ?c3.0 = "clock_at (timedelta_seconds 20)" and ?c4.0 = "clock_at (timedelta_seconds 30)"
      and ?c5.0 = "clock_at (timedelta_seconds 40)" and ?c6.0 = "clock_at (timedelta_seconds 50)",
      OF reachable_initial]
  by (simp add: initial_world_def get_entry_def fresh_entry_def clock_at_def timedelta_seconds_def
        timedelta_minutes_def BLOCK_DURATION_MINUTES_def promo_def example_cfg_def)

text \<open>
  C4.  While \<^verbatim>\<open>blocked_until\<close> is set and the clock read by \<^verbatim>\<open>is_blocked\<close> is not past
  it, every message of that user, whatever its text and whatever the user's state, is
  dropped: no reply is sent, and the store and the states of all users are as before.
\<close>

theorem blocked_user_dropped:
  assumes "user_data w (from_user m) = Some d"
      and "blocked_until d = Some b"
      and "at_lookup clk \<le> b"
  shows "feed_update cfg clk m w = Inr (w, [])"
  using assms by (simp add: feed_update_unfold middleware_still)

theorem blocked_user_dropped_witness:
  "feed_update example_cfg (clock_at 100) (text_message 7 ''/clearcache'')
     \<lparr>user_data = [7 \<mapsto> \<lparr>requests = [1, 2, 3, 4, 5, 6], blocked_until = Some 100\<rparr>],
      fsm = Map.empty\<rparr>
   = Inr (\<lparr>user_data = [7 \<mapsto> \<lparr>requests = [1, 2, 3, 4, 5, 6], blocked_until = Some 100\<rparr>],
           fsm = Map.empty\<rparr>, [])
   \<and> feed_update example_cfg (clock_at 100) (text_message 7 ''secret'')
     \<lparr>user_data = [7 \<mapsto> \<lparr>requests = [1, 2, 3, 4, 5, 6], blocked_until = Some 100\<rparr>],
      fsm = [7 \<mapsto> waiting_for_password]\<rparr>
   = Inr (\<lparr>user_data = [7 \<mapsto> \<lparr>requests = [1, 2, 3, 4, 5, 6], blocked_until = Some 100\<rparr>],
           fsm = [7 \<mapsto> waiting_for_password]\<rparr>, [])"
  using blocked_user_dropped [of
          "\<lparr>user_data = [7 \<mapsto> \<lparr>requests = [1, 2, 3, 4, 5, 6], blocked_until = Some 100\<rparr>],
            fsm = Map.empty\<rparr>"
          "text_message 7 ''/clearcache''" "\<lparr>requests = [1, 2, 3, 4, 5, 6], blocked_until = Some 100\<rparr>"
          100 "clock_at 100" example_cfg]
        blocked_user_dropped [of
          "\<lparr>user_data = [7 \<mapsto> \<lparr>requests = [1, 2, 3, 4, 5, 6], blocked_until = Some 100\<rparr>],
            fsm = [7 \<mapsto> waiting_for_password]\<rparr>"
          "text_message 7 ''secret''" "\<lparr>requests = [1, 2, 3, 4, 5, 6], blocked_until = Some 100\<rparr>"
          100 "clock_at 100" example_cfg]
  by (simp add: clock_at_def)

text \<open>
  C5.  For a user with \<^verbatim>\<open>blocked_until\<close> set to \<open>b\<close>: a lookup at a time up to and
  including \<open>b\<close> reports the user blocked and changes nothing; the first lookup at a time
  after \<open>b\<close> reports the user not blocked and, in the same lookup, stores an entry with no
  block and an empty history.  A greeting command arriving after \<open>b\<close> is therefore
  request number one of a new window: the history is the one new timestamp and the
  promotional payload is the only reply.
\<close>

theorem block_expiry:
  assumes "user_data w uid = Some d"
      and "blocked_until d = Some b"
  shows "(now \<le> b \<longrightarrow> is_blocked now uid (user_data w) = ((True, Some b), user_data w))
       \<and> (b < now \<longrightarrow>
            is_blocked now uid (user_data w) =
              ((False, None), (user_data w)(uid \<mapsto> \<lparr>requests = [], blocked_until = None\<rparr>)))
       \<and> (b < at_lookup clk \<and> CommandStart m \<and> from_user m = uid \<longrightarrow>
            feed_update cfg clk m w =
              Inr (w\<lparr>user_data := (user_data w)(uid \<mapsto> \<lparr>requests = [at_record clk], blocked_until = None\<rparr>)\<rparr>,
                   [promo cfg]))"
proof (intro conjI impI)
  assume "now \<le> b"
  with assms show "is_blocked now uid (user_data w) = ((True, Some b), user_data w)"
    by (simp add: is_blocked_still)
next
  assume "b < now"
  with assms show "is_blocked now uid (user_data w) =
      ((False, None), (user_data w)(uid \<mapsto> \<lparr>requests = [], blocked_until = None\<rparr>))"
    by (simp add: is_blocked_expired)
next
  assume a: "b < at_lookup clk \<and> CommandStart m \<and> from_user m = uid"
  let ?ud = "(user_data w)(uid \<mapsto> \<lparr>requests = [], blocked_until = None\<rparr>)"
  have "feed_update cfg clk m w = start cfg (at_record clk) (at_block clk) m (w\<lparr>user_data := ?ud\<rparr>)"
    using a assms by (simp add: feed_update_unfold middleware_expired)
  also have "\<dots> = Inr (w\<lparr>user_data := ?ud(from_user m \<mapsto> \<lparr>requests = [at_record clk], blocked_until = None\<rparr>)\<rparr>,
                        [promo cfg])"
    using a by (intro start_fresh_window) (simp add: get_entry_def)
  finally show "feed_update cfg clk m w =
      Inr (w\<lparr>user_data := (user_data w)(uid \<mapsto> \<lparr>requests = [at_record clk], blocked_until = None\<rparr>)\<rparr>,
           [promo cfg])"
    using a by simp
qed

theorem block_expiry_witness:
  "is_blocked 100 7 [7 \<mapsto> \<lparr>requests = [1, 2, 3, 4, 5, 6], blocked_until = Some 100\<rparr>]
     = ((True, Some 100), [7 \<mapsto> \<lparr>requests = [1, 2, 3, 4, 5, 6], blocked_until = Some 100\<rparr>])
   \<and> is_blocked 101 7 [7 \<mapsto> \<lparr>requests = [1, 2, 3, 4, 5, 6], blocked_until = Some 100\<rparr>]
     = ((False, None), [7 \<mapsto> \<lparr>requests = [], blocked_until = None\<rparr>])
   \<and> feed_update example_cfg (clock_at 101) (text_message 7 ''/start'')
        \<lparr>user_data = [7 \<mapsto> \<lparr>requests = [1, 2, 3, 4, 5, 6], blocked_until = Some 100\<rparr>],
         fsm = Map.empty\<rparr>
     = Inr (\<lparr>user_data = [7 \<mapsto> \<lparr>requests = [101], blocked_until = None\<rparr>], fsm = Map.empty\<rparr>,
            [Answer_caption (Some ''https://t.me/channel'')])"
  using block_expiry [of
          "\<lparr>user_data = [7 \<mapsto> \<lparr>requests = [1, 2, 3, 4, 5, 6], blocked_until = Some 100\<rparr>],
            fsm = Map.empty\<rparr>"
          7 "\<lparr>requests = [1, 2, 3, 4, 5, 6], blocked_until = Some 100\<rparr>" 100 100
          "clock_at 101" "text_message 7 ''/start''" example_cfg]
        block_expiry [of
          "\<lparr>user_data = [7 \<mapsto> \<lparr>requests = [1, 2, 3, 4, 5, 6], blocked_until = Some 100\<rparr>],
            fsm = Map.empty\<rparr>"
          7 "\<lparr>requests = [1, 2, 3, 4, 5, 6], blocked_until = Some 100\<rparr>" 100 101
          "clock_at 101" "text_message 7 ''/start''" example_cfg]
  by (simp add: clock_at_def promo_def example_cfg_def)

text \<open>
  C6.  \<^verbatim>\<open>record_request\<close> keeps of the stored history the timestamps strictly later than
  one minute before the new one, then appends the new one, and leaves \<^verbatim>\<open>blocked_until\<close>
  as it was.  With requests stored at \<open>t\<close> and \<open>t + 30 s\<close>, recording at \<open>t + 70 s\<close> leaves
  two timestamps, \<open>t + 30 s\<close> and \<open>t + 70 s\<close>.
\<close>

theorem record_request_window:
  "record_request now uid ud uid =
     Some \<lparr>requests = filter (\<lambda>x. now - timedelta_minutes 1 < x) (requests (get_entry ud uid)) @ [now],
           blocked_until = blocked_until (get_entry ud uid)\<rparr>
   \<and> (requests (get_entry ud uid) = [t, t + timedelta_seconds 30] \<longrightarrow>
        requests (get_entry (record_request (t + timedelta_seconds 70) uid ud) uid)
          = [t + timedelta_seconds 30, t + timedelta_seconds 70]
        \<and> length (requests (get_entry (record_request (t + timedelta_seconds 70) uid ud) uid)) = 2)"
  by (simp add: record_request_def get_entry_def Let_def timedelta_minutes_def timedelta_seconds_def)

theorem record_request_window_witness:
  "requests (get_entry [1 \<mapsto> \<lparr>requests = [0, 0 + timedelta_seconds 30], blocked_until = None\<rparr>] 1)
     = [0, 0 + timedelta_seconds 30]
   \<and> length (requests (get_entry (record_request (0 + timedelta_seconds 70) 1
        [1 \<mapsto> \<lparr>requests = [0, 0 + timedelta_seconds 30], blocked_until = None\<rparr>]) 1)) = 2"
  using record_request_window [of 0 1 "[1 \<mapsto> \<lparr>requests = [0, 0 + timedelta_seconds 30], blocked_until = None\<rparr>]" 0]
  by (simp add: get_entry_def)

text \<open>
  C7.  When the text of the message equals the configured password,
  \<^verbatim>\<open>process_clear_password\<close> replies with the success message and leaves a store in which
  no user has an entry: every user's request history is empty and no user is blocked.  The
  sender is back in the default state.  This is also the result of the whole dispatch of
  such a message from a user in \<open>waiting_for_password\<close> whom the middleware lets through, when the
  text is not one of the two commands.
\<close>

theorem password_success_clears_all:
  assumes "msg_text m = CLEAR_CACHE_PASSWORD cfg"
  shows "\<exists>w'. process_clear_password cfg m w = Inr (w', [Answer_cache_cleared])
              \<and> fsm w' = (fsm w)(from_user m := None)
              \<and> (\<forall>u now. user_data w' u = None
                        \<and> requests (get_entry (user_data w') u) = []
                        \<and> is_blocked now u (user_data w') = ((False, None), user_data w'))
              \<and> (fsm w (from_user m) = Some waiting_for_password
                   \<and> \<not> CommandStart m \<and> \<not> Command ''clearcache'' m
                   \<and> \<not> fst (fst (is_blocked (at_lookup clk) (from_user m) (user_data w)))
                  \<longrightarrow> feed_update cfg clk m w = Inr (w', [Answer_cache_cleared]))"
proof -
  let ?w' = "\<lparr>user_data = Map.empty, fsm = (fsm w)(from_user m := None)\<rparr>"
  have 1: "process_clear_password cfg m w = Inr (?w', [Answer_cache_cleared])"
    using assms by (simp add: password_value)
  have 2: "user_data ?w' u = None \<and> requests (get_entry (user_data ?w') u) = []
           \<and> is_blocked now u (user_data ?w') = ((False, None), user_data ?w')" for u now
    by (simp add: is_blocked_empty get_entry_def fresh_entry_def)
  have 3: "feed_update cfg clk m w = Inr (?w', [Answer_cache_cleared])"
    if "fsm w (from_user m) = Some waiting_for_password
        \<and> \<not> CommandStart m \<and> \<not> Command ''clearcache'' m
        \<and> \<not> fst (fst (is_blocked (at_lookup clk) (from_user m) (user_data w)))"
    using that assms by (simp add: feed_update_unfold middleware_passed password_value)
  show ?thesis
    using 1 2 3 by (intro exI [of _ ?w']) simp
qed

theorem password_success_clears_all_witness:
  "msg_text (text_message 7 ''secret'') = CLEAR_CACHE_PASSWORD example_cfg
   \<and> (\<exists>w'. feed_update example_cfg (clock_at 200) (text_message 7 ''secret'')
               \<lparr>user_data = [7 \<mapsto> \<lparr>requests = [150], blocked_until = None\<rparr>,
                             8 \<mapsto> \<lparr>requests = [1, 2, 3, 4, 5, 6], blocked_until = Some 1000\<rparr>],
                fsm = [7 \<mapsto> waiting_for_password]\<rparr>
             = Inr (w', [Answer_cache_cleared])
           \<and> user_data w' 7 = None \<and> user_data w' 8 = None
           \<and> fst (is_blocked 200 8 (user_data w')) = (False, None))"
proof -
  let ?w = "\<lparr>user_data = [7 \<mapsto> \<lparr>requests = [150], blocked_until = None\<rparr>,
                          8 \<mapsto> \<lparr>requests = [1, 2, 3, 4, 5, 6], blocked_until = Some 1000\<rparr>],
            fsm = [7 \<mapsto> waiting_for_password]\<rparr>"
  have eq: "msg_text (text_message 7 ''secret'') = CLEAR_CACHE_PASSWORD example_cfg"
    by (simp add: example_cfg_def)
  have pass: "\<not> fst (fst (is_blocked (at_lookup (clock_at 200)) (from_user (text_message 7 ''secret''))
                  (user_data ?w)))"
    by (simp add: clock_at_def is_blocked_def get_entry_def Let_def)
  obtain w' where
        all: "\<forall>u now. user_data w' u = None
                \<and> requests (get_entry (user_data w') u) = []
                \<and> is_blocked now u (user_data w') = ((False, None), user_data w')"
    and fed: "fsm ?w (from_user (text_message 7 ''secret'')) = Some waiting_for_password
                \<and> \<not> CommandStart (text_message 7 ''secret'')
                \<and> \<not> Command ''clearcache'' (text_message 7 ''secret'')
                \<and> \<not> fst (fst (is_blocked (at_lookup (clock_at 200))
                                (from_user (text_message 7 ''secret'')) (user_data ?w)))
              \<longrightarrow> feed_update example_cfg (clock_at 200) (text_message 7 ''secret'') ?w
                    = Inr (w', [Answer_cache_cleared])"
    using password_success_clears_all [OF eq, of ?w "clock_at 200"] by blast
  have "feed_update example_cfg (clock_at 200) (text_message 7 ''secret'') ?w
          = Inr (w', [Answer_cache_cleared])"
    using fed pass by simp
  moreover have "user_data w' 7 = None" "user_data w' 8 = None"
      "fst (is_blocked 200 8 (user_data w')) = (False, None)"
    using all by simp_all
  ultimately show ?thesis
    using eq by blast
qed

text \<open>
  C8.  When the text of the message differs from the configured password,
  \<^verbatim>\<open>process_clear_password\<close> replies with the failure message, puts the sender back into the
  default state and returns the store it was given, the sender's own entry included.  In
  the whole dispatch of such a message the store after the message is the one the middleware's
  lookup handed to the handler.
\<close>

theorem wrong_password_keeps_store:
  assumes "msg_text m \<noteq> CLEAR_CACHE_PASSWORD cfg"
  shows "process_clear_password cfg m w =
           Inr (w\<lparr>fsm := (fsm w)(from_user m := None)\<rparr>, [Answer_wrong_password])
       \<and> (fsm w (from_user m) = Some waiting_for_password
            \<and> \<not> CommandStart m \<and> \<not> Command ''clearcache'' m
            \<and> \<not> fst (fst (is_blocked (at_lookup clk) (from_user m) (user_data w)))
           \<longrightarrow> feed_update cfg clk m w =
                 Inr (w\<lparr>user_data := snd (is_blocked (at_lookup clk) (from_user m) (user_data w)),
                        fsm := (fsm w)(from_user m := None)\<rparr>, [Answer_wrong_password]))"
  using assms
  by (cases w) (simp add: password_value feed_update_unfold middleware_passed)

theorem wrong_password_keeps_store_witness:
  "msg_text (text_message 7 ''wrong'') \<noteq> CLEAR_CACHE_PASSWORD example_cfg
   \<and> feed_update example_cfg (clock_at 200) (text_message 7 ''wrong'')
        \<lparr>user_data = [7 \<mapsto> \<lparr>requests = [150], blocked_until = None\<rparr>,
                      8 \<mapsto> \<lparr>requests = [1, 2, 3, 4, 5, 6], blocked_until = Some 1000\<rparr>],
         fsm = [7 \<mapsto> waiting_for_password]\<rparr>
     = Inr (\<lparr>user_data = [7 \<mapsto> \<lparr>requests = [150], blocked_until = None\<rparr>,
                          8 \<mapsto> \<lparr>requests = [1, 2, 3, 4, 5, 6], blocked_until = Some 1000\<rparr>],
             fsm = Map.empty\<rparr>, [Answer_wrong_password])"
  using wrong_password_keeps_store [of "text_message 7 ''wrong''" example_cfg
          "\<lparr>user_data = [7 \<mapsto> \<lparr>requests = [150], blocked_until = None\<rparr>,
                          8 \<mapsto> \<lparr>requests = [1, 2, 3, 4, 5, 6], blocked_until = Some 1000\<rparr>],
            fsm = [7 \<mapsto> waiting_for_password]\<rparr>" "clock_at 200"]
  by (simp add: example_cfg_def clock_at_def is_blocked_def get_entry_def Let_def)

text \<open>
  C9.  When \<^verbatim>\<open>CLEAR_CACHE_PASSWORD\<close> is \<^verbatim>\<open>None\<close>, \<^verbatim>\<open>process_clear_password\<close> answers
  every message that has a text with the failure message and leaves the store as it is, since
  no string equals \<^verbatim>\<open>None\<close>; the prompt of \<^verbatim>\<open>cmd_clearcache\<close> is sent all the same, by the
  handler and by the dispatch of \<^verbatim>\<open>/clearcache\<close> for a user the middleware lets through.
\<close>

theorem no_password_never_clears:
  assumes "CLEAR_CACHE_PASSWORD cfg = None"
  shows "process_clear_password cfg \<lparr>from_user = u, msg_text = Some s\<rparr> w =
           Inr (w\<lparr>fsm := (fsm w)(u := None)\<rparr>, [Answer_wrong_password])
       \<and> cmd_clearcache m w =
           Inr (w\<lparr>fsm := (fsm w)(from_user m \<mapsto> waiting_for_password)\<rparr>, [Answer_enter_password])
       \<and> (Command ''clearcache'' m
            \<and> \<not> fst (fst (is_blocked (at_lookup clk) (from_user m) (user_data w)))
           \<longrightarrow> feed_update cfg clk m w =
                 Inr (w\<lparr>user_data := snd (is_blocked (at_lookup clk) (from_user m) (user_data w)),
                        fsm := (fsm w)(from_user m \<mapsto> waiting_for_password)\<rparr>,
                      [Answer_enter_password]))"
  using assms
  by (cases w)
     (auto simp: password_value feed_update_unfold middleware_passed cmd_clearcache_def
        Command_clearcache_not_start)

theorem no_password_never_clears_witness:
  "CLEAR_CACHE_PASSWORD example_cfg_no_password = None
   \<and> process_clear_password example_cfg_no_password \<lparr>from_user = 7, msg_text = Some ''secret''\<rparr>
        \<lparr>user_data = [8 \<mapsto> \<lparr>requests = [1], blocked_until = None\<rparr>],
         fsm = [7 \<mapsto> waiting_for_password]\<rparr>
     = Inr (\<lparr>user_data = [8 \<mapsto> \<lparr>requests = [1], blocked_until = None\<rparr>], fsm = Map.empty\<rparr>,
            [Answer_wrong_password])
   \<and> feed_update example_cfg_no_password (clock_at 0) (text_message 7 ''/clearcache'')
        \<lparr>user_data = [8 \<mapsto> \<lparr>requests = [1], blocked_until = None\<rparr>], fsm = Map.empty\<rparr>
     = Inr (\<lparr>user_data = [8 \<mapsto> \<lparr>requests = [1], blocked_until = None\<rparr>],
             fsm = [7 \<mapsto> waiting_for_password]\<rparr>, [Answer_enter_password])"
  using no_password_never_clears [of example_cfg_no_password 7 "''secret''"
          "\<lparr>user_data = [8 \<mapsto> \<lparr>requests = [1], blocked_until = None\<rparr>],
            fsm = [7 \<mapsto> waiting_for_password]\<rparr>"]
        no_password_never_clears [of example_cfg_no_password 7 "''secret''"
          "\<lparr>user_data = [8 \<mapsto> \<lparr>requests = [1], blocked_until = None\<rparr>], fsm = Map.empty\<rparr>"
          "text_message 7 ''/clearcache''" "clock_at 0"]
  by (simp add: example_cfg_no_password_def example_cfg_def clock_at_def is_blocked_def
        get_entry_def fresh_entry_def Let_def)

text \<open>
  C10.  Loading the configuration fails with the error naming \<^verbatim>\<open>BOT_TOKEN\<close> when that
  variable is absent, and fails (with the error naming \<^verbatim>\<open>CHANNEL_LINK\<close> when the token is
  there) when \<^verbatim>\<open>CHANNEL_LINK\<close> is absent.  With both set and the password absent it
  succeeds, with no password in the configuration and the warning printed.
\<close>

theorem startup_config:
  "(getenv ''BOT_TOKEN'' = None \<longrightarrow> load_config getenv = Inl ValueError_BOT_TOKEN_not_found)
 \<and> (getenv ''CHANNEL_LINK'' = None \<longrightarrow>
      load_config getenv = Inl (if truthy (getenv ''BOT_TOKEN'')
                                then ValueError_CHANNEL_LINK_not_found
                                else ValueError_BOT_TOKEN_not_found))
 \<and> (truthy (getenv ''BOT_TOKEN'') \<and> truthy (getenv ''CHANNEL_LINK'')
      \<and> getenv ''CLEAR_CACHE_PASSWORD'' = None \<longrightarrow>
      load_config getenv =
        Inr (\<lparr>BOT_TOKEN = getenv ''BOT_TOKEN'', CHANNEL_LINK = getenv ''CHANNEL_LINK'',
              PHOTO_URL = getenv ''PHOTO_URL'', CLEAR_CACHE_PASSWORD = None\<rparr>,
             [Warning_clearcache_disabled]))"
  by (simp add: load_config_def truthy_def Let_def)

theorem startup_config_witness:
  "load_config Map.empty = Inl ValueError_BOT_TOKEN_not_found
   \<and> load_config [''BOT_TOKEN'' \<mapsto> ''123:abc''] = Inl ValueError_CHANNEL_LINK_not_found
   \<and> load_config [''BOT_TOKEN'' \<mapsto> ''123:abc'', ''CHANNEL_LINK'' \<mapsto> ''https://t.me/channel'']
     = Inr (\<lparr>BOT_TOKEN = Some ''123:abc'', CHANNEL_LINK = Some ''https://t.me/channel'',
             PHOTO_URL = None, CLEAR_CACHE_PASSWORD = None\<rparr>, [Warning_clearcache_disabled])"
  using startup_config [of Map.empty]
        startup_config [of "[''BOT_TOKEN'' \<mapsto> ''123:abc'']"]
        startup_config [of "[''BOT_TOKEN'' \<mapsto> ''123:abc'', ''CHANNEL_LINK'' \<mapsto> ''https://t.me/channel'']"]
  by (simp add: truthy_def)

end
